theory Spec2Isabelle
  imports Main
begin

section \<open>JavaScript values of the parsed feed\<close>

text \<open>
  A number is named by what \<^verbatim>\<open>Number::toString\<close> prints for it. A finite number other than
  zero is \<open>Finite neg s n\<close>: its sign, and the integers \<open>s\<close> and \<open>n\<close> of the printing
  algorithm, where the \<open>k\<close> decimal digits of \<open>s\<close> are the shortest digits that read back as
  the number (so \<open>s\<close> does not end in 0) and the absolute value is \<open>s * 10 ^ (n - k)\<close>. So
  1.5 is \<open>Finite False 15 1\<close>, 1024 is \<open>Finite False 1024 4\<close> and \<open>1e21\<close> is
  \<open>Finite False 1 22\<close>. Both zeros are \<open>Zero\<close>: nothing in the program tells them apart.
  Two numbers are the same value exactly when they are equal here; only triples that are
  the shortest digits of a double stand for a number.
\<close>

datatype jsnum = NaN | Infinite bool | Zero | Finite bool nat int

text \<open>
  \<^verbatim>\<open>validate-feed.ts\<close> works on the tree that \<^verbatim>\<open>fast-xml-parser\<close> returns and on the
  values \<^verbatim>\<open>_.get\<close> reads from it. A value is a primitive, an array, an object or a
  built-in function (named by its name); an object is the list of its own properties in
  insertion order. A string is a list of code units below 256. The document is a tree,
  so two arrays or objects reached at different places are never the same reference.
\<close>

datatype jsval =
    JUndefined
  | JNull
  | JBool bool
  | JNum jsnum
  | JStr string
  | JArr "jsval list"
  | JObj "(string \<times> jsval) list"
  | JFunction string

fun typeof :: "jsval \<Rightarrow> string" where
  "typeof JUndefined = ''undefined''"
| "typeof JNull = ''object''"
| "typeof (JBool b) = ''boolean''"
| "typeof (JNum n) = ''number''"
| "typeof (JStr s) = ''string''"
| "typeof (JArr xs) = ''object''"
| "typeof (JObj kvs) = ''object''"
| "typeof (JFunction name) = ''function''"

text \<open>The conversion to boolean of \<^verbatim>\<open>if (v)\<close>, \<^verbatim>\<open>a && b\<close> and \<^verbatim>\<open>assert.ok(v)\<close>.\<close>

fun truthy :: "jsval \<Rightarrow> bool" where
  "truthy JUndefined = False"
| "truthy JNull = False"
| "truthy (JBool b) = b"
| "truthy (JNum n) = (n \<noteq> Zero \<and> n \<noteq> NaN)"
| "truthy (JStr s) = (s \<noteq> [])"
| "truthy (JArr xs) = True"
| "truthy (JObj kvs) = True"
| "truthy (JFunction name) = True"

fun isPrimitive :: "jsval \<Rightarrow> bool" where
  "isPrimitive (JArr xs) = False"
| "isPrimitive (JObj kvs) = False"
| "isPrimitive (JFunction name) = False"
| "isPrimitive v = True"

text \<open>The string and the number inside a value, read only after a \<^verbatim>\<open>typeof\<close> test.\<close>

fun strOf :: "jsval \<Rightarrow> string" where
  "strOf (JStr s) = s"
| "strOf v = []"

fun numOf :: "jsval \<Rightarrow> jsnum" where
  "numOf (JNum n) = n"
| "numOf v = NaN"

text \<open>\<^verbatim>\<open>x > 0\<close> on a number.\<close>

fun isPositive :: "jsnum \<Rightarrow> bool" where
  "isPositive NaN = False"
| "isPositive (Infinite neg) = (\<not> neg)"
| "isPositive Zero = False"
| "isPositive (Finite neg s n) = (\<not> neg)"

subsection \<open>Thrown values\<close>

text \<open>
  What a checker or a validator throws: an \<^verbatim>\<open>AssertionError\<close> of \<^verbatim>\<open>assert\<close>, a \<^verbatim>\<open>TypeError\<close> of
  the runtime, or the \<^verbatim>\<open>new Error(...)\<close> the validators build for \<^verbatim>\<open>handleError\<close>.
\<close>

datatype exn = AssertionError string | TypeError string | Error string

fun message :: "exn \<Rightarrow> string" where
  "message (AssertionError m) = m"
| "message (TypeError m) = m"
| "message (Error m) = m"

subsection \<open>Strings\<close>

fun showNat :: "nat \<Rightarrow> string" where
  "showNat n =
     (if n < 10 then [''0123456789'' ! n]
      else showNat (n div 10) @ [''0123456789'' ! (n mod 10)])"

declare showNat.simps [simp del]

text \<open>
  \<^verbatim>\<open>Number::toString\<close>: with \<open>k\<close> the number of digits of \<open>s\<close>, the digits followed by
  zeros when \<open>k \<le> n \<le> 21\<close>, the digits with a point after the first \<open>n\<close> when
  \<open>0 < n \<le> 21\<close>, \<^verbatim>\<open>0.\<close> and zeros before the digits when \<open>-6 < n \<le> 0\<close>, and the
  exponent form otherwise.
\<close>

fun numToString :: "jsnum \<Rightarrow> string" where
  "numToString NaN = ''NaN''"
| "numToString (Infinite neg) = (if neg then ''-Infinity'' else ''Infinity'')"
| "numToString Zero = ''0''"
| "numToString (Finite neg s n) =
     (let digits = showNat s;
          k = int (length digits)
      in (if neg then ''-'' else [])
         @ (if k \<le> n \<and> n \<le> 21 then digits @ replicate (nat (n - k)) CHR ''0''
            else if 0 < n \<and> n \<le> 21 then take (nat n) digits @ ''.'' @ drop (nat n) digits
            else if - 6 < n \<and> n \<le> 0 then ''0.'' @ replicate (nat (- n)) CHR ''0'' @ digits
            else (if k = 1 then digits else take 1 digits @ ''.'' @ drop 1 digits)
                 @ ''e'' @ (if n - 1 < 0 then ''-'' else ''+'') @ showNat (nat (abs (n - 1)))))"

text \<open>
  The number of a length or a count: its digits without the zeros at the end, and the
  number of its digits.
\<close>

fun stripZeros :: "nat \<Rightarrow> nat" where
  "stripZeros n = (if n = 0 then 0 else if n mod 10 = 0 then stripZeros (n div 10) else n)"

declare stripZeros.simps [simp del]

definition ofNat :: "nat \<Rightarrow> jsnum" where
  "ofNat n = (if n = 0 then Zero else Finite False (stripZeros n) (int (length (showNat n))))"

text \<open>\<^verbatim>\<open>Array.prototype.join\<close> on strings.\<close>

fun join :: "string \<Rightarrow> string list \<Rightarrow> string" where
  "join sep [] = []"
| "join sep [x] = x"
| "join sep (x # y # ys) = x @ sep @ join sep (y # ys)"

text \<open>The strings of a list of conversions, or the first error among them.\<close>

fun collect :: "(exn + string) list \<Rightarrow> exn + string list" where
  "collect [] = Inr []"
| "collect (Inl err # rest) = Inl err"
| "collect (Inr s # rest) = (case collect rest of Inl err \<Rightarrow> Inl err | Inr ss \<Rightarrow> Inr (s # ss))"

text \<open>
  The string a template literal \<^verbatim>\<open>`${v}`\<close> inserts, or the \<^verbatim>\<open>TypeError\<close> of the conversion.
  An array joins its elements with a comma, \<^verbatim>\<open>null\<close> and \<^verbatim>\<open>undefined\<close> elements as the
  empty string. An object prints as \<^verbatim>\<open>[object Object]\<close>, unless it has a property
  \<^verbatim>\<open>toString\<close> of its own: that property is a value of the tree and not a function, the
  inherited \<^verbatim>\<open>valueOf\<close> gives the object back, and the conversion throws.
\<close>

fun toStr :: "jsval \<Rightarrow> exn + string" where
  "toStr JUndefined = Inr ''undefined''"
| "toStr JNull = Inr ''null''"
| "toStr (JBool b) = Inr (if b then ''true'' else ''false'')"
| "toStr (JNum n) = Inr (numToString n)"
| "toStr (JStr s) = Inr s"
| "toStr (JArr xs) =
     (case collect (map (\<lambda>x. if x = JNull \<or> x = JUndefined then Inr [] else toStr x) xs) of
        Inl err \<Rightarrow> Inl err
      | Inr ss \<Rightarrow> Inr (join '','' ss))"
| "toStr (JObj kvs) =
     (if ''toString'' \<in> set (map fst kvs)
      then Inl (TypeError ''Cannot convert object to primitive value'')
      else Inr ''[object Object]'')"
| "toStr (JFunction name) = Inr (''function '' @ name @ ''() { [native code] }'')"

text \<open>\<^verbatim>\<open>s.slice(start, stop)\<close>: a negative index counts from the end, both are clamped.\<close>

definition slice :: "string \<Rightarrow> int \<Rightarrow> int \<Rightarrow> string" where
  "slice s start stop =
     (let len = int (length s);
          from = (if start < 0 then max (len + start) 0 else min start len);
          to = (if stop < 0 then max (len + stop) 0 else min stop len)
      in take (nat (to - from)) (drop (nat from) s))"

definition startsWith :: "string \<Rightarrow> string \<Rightarrow> bool" where
  "startsWith s p = (take (length p) s = p)"

definition endsWith :: "string \<Rightarrow> string \<Rightarrow> bool" where
  "endsWith s p = (length p \<le> length s \<and> drop (length s - length p) s = p)"

text \<open>\<^verbatim>\<open>s.indexOf(needle)\<close>: the first position where \<open>needle\<close> starts, or \<open>-1\<close>.\<close>

fun indexOfFrom :: "string \<Rightarrow> string \<Rightarrow> nat \<Rightarrow> int" where
  "indexOfFrom [] needle i = (if needle = [] then int i else - 1)"
| "indexOfFrom (c # cs) needle i =
     (if startsWith (c # cs) needle then int i else indexOfFrom cs needle (Suc i))"

definition indexOfStr :: "string \<Rightarrow> string \<Rightarrow> int" where
  "indexOfStr s needle = indexOfFrom s needle 0"

text \<open>
  \<^verbatim>\<open>xs.indexOf(v)\<close> on an array of the reference data: strict equality is equality of
  values for primitives other than \<^verbatim>\<open>NaN\<close>, which equals nothing.
\<close>

fun indexOfArrFrom :: "jsval list \<Rightarrow> jsval \<Rightarrow> nat \<Rightarrow> int" where
  "indexOfArrFrom [] v i = - 1"
| "indexOfArrFrom (x # xs) v i =
     (if isPrimitive v \<and> v \<noteq> JNum NaN \<and> x = v then int i
      else indexOfArrFrom xs v (Suc i))"

definition indexOf :: "jsval list \<Rightarrow> jsval \<Rightarrow> int" where
  "indexOf xs v = indexOfArrFrom xs v 0"

subsection \<open>Numbers read from strings\<close>

text \<open>
  The white space that \<^verbatim>\<open>parseInt\<close> and the conversion of a string to a number skip: TAB,
  LF, VT, FF, CR, SP and NBSP among the code units below 256.
\<close>

definition isWhiteSpace :: "char \<Rightarrow> bool" where
  "isWhiteSpace c = (of_char c \<in> {9::nat, 10, 11, 12, 13, 32, 160})"

definition isDigit :: "char \<Rightarrow> bool" where
  "isDigit c = (48 \<le> (of_char c :: nat) \<and> (of_char c :: nat) \<le> 57)"

definition decimal :: "string \<Rightarrow> nat" where
  "decimal ds = foldl (\<lambda>a c. 10 * a + (of_char c - 48)) 0 ds"

text \<open>
  \<^verbatim>\<open>parseInt(s, 10)\<close>: skip leading white space, read one sign, then the longest run of
  decimal digits; no digit gives \<^verbatim>\<open>NaN\<close> (\<open>None\<close>). What follows the digits is ignored.
\<close>

definition parseInt :: "string \<Rightarrow> int option" where
  "parseInt s =
     (let t = dropWhile isWhiteSpace s;
          neg = (case t of [] \<Rightarrow> False | c # r \<Rightarrow> c = CHR ''-'');
          u = (case t of [] \<Rightarrow> [] | c # r \<Rightarrow> if c = CHR ''-'' \<or> c = CHR ''+'' then r else t);
          z = takeWhile isDigit u
      in if z = [] then None
         else Some ((if neg then - 1 else 1) * int (decimal z)))"

definition trim :: "string \<Rightarrow> string" where
  "trim s = rev (dropWhile isWhiteSpace (rev (dropWhile isWhiteSpace s)))"

text \<open>
  The number a string converts to when \<^verbatim>\<open>==\<close> compares it with a boolean or a number: the
  trimmed string is empty (zero), a run of decimal digits, or not a number. Literals with a
  sign, a fraction, an exponent or a radix prefix, and \<^verbatim>\<open>Infinity\<close>, are not covered: the only
  strings compared this way here are the checkers' messages, which contain spaces between
  words.
\<close>

definition StringToNumber :: "string \<Rightarrow> int option" where
  "StringToNumber s =
     (let t = trim s
      in if t = [] then Some 0
         else if list_all isDigit t then Some (int (decimal t))
         else None)"

text \<open>\<^verbatim>\<open>b == s\<close> for a boolean and a string: both sides are converted to numbers.\<close>

definition looseEqBoolStr :: "bool \<Rightarrow> string \<Rightarrow> bool" where
  "looseEqBoolStr b s = (StringToNumber s = Some (if b then 1 else 0))"

section \<open>Assertions\<close>

text \<open>
  A run of \<^verbatim>\<open>assert\<close> statements, each given as the condition under which it passes and its
  message: the first that fails throws, and the statements after it are not run.
\<close>

fun asserts :: "(bool \<times> string) list \<Rightarrow> exn + unit" where
  "asserts [] = Inr ()"
| "asserts ((ok, msg) # rest) = (if ok then asserts rest else Inl (AssertionError msg))"

text \<open>
  The message \<^verbatim>\<open>assert.notEqual(actual, expected)\<close> builds when the caller gives none.
\<close>

definition generatedMessage :: "bool \<Rightarrow> string \<Rightarrow> string" where
  "generatedMessage actual expected =
     (if actual then ''true'' else ''false'') @ '' != '' @ [CHR 0x27] @ expected @ [CHR 0x27]"

section \<open>Field checkers\<close>

text \<open>
  \<^verbatim>\<open>checkDefaultString\<close>. Its last statement is
  \<^verbatim>\<open>assert.notEqual(s.length > 255, `${fieldName} must not have more than 255 characters.`)\<close>:
  the text meant as the message is the \<open>expected\<close> argument, so the statement compares a
  boolean with that text by \<^verbatim>\<open>!=\<close>.
\<close>

definition checkDefaultString :: "jsval \<Rightarrow> string \<Rightarrow> exn + unit" where
  "checkDefaultString s fieldName =
     asserts
       [(typeof s = ''string'', fieldName @ '' must be a string.''),
        (\<not> startsWith (strOf s) '' '', fieldName @ '' must not start with leading space.''),
        (\<not> endsWith (strOf s) '' '', fieldName @ '' must not start with trailing space.''),
        (length (strOf s) > 0, fieldName @ '' is an empty string.''),
        (\<not> looseEqBoolStr (length (strOf s) > 255)
             (fieldName @ '' must not have more than 255 characters.''),
         generatedMessage (length (strOf s) > 255)
             (fieldName @ '' must not have more than 255 characters.''))]"

definition checkNatural :: "jsval \<Rightarrow> string \<Rightarrow> exn + unit" where
  "checkNatural s fieldName =
     asserts
       [(typeof s = ''number'', fieldName @ '' must be a number.''),
        (isPositive (numOf s), fieldName @ '' must be a positive number.'')]"

definition checkNumberString :: "jsval \<Rightarrow> string \<Rightarrow> exn + unit" where
  "checkNumberString s fieldName =
     asserts
       [(typeof s = ''string'', fieldName @ '' must be a string.''),
        (parseInt (strOf s) \<noteq> None, fieldName @ '' is not a valid number string.''),
        ((case parseInt (strOf s) of None \<Rightarrow> False | Some n \<Rightarrow> n \<ge> 0),
         fieldName @ '' must be a positive number or zero.'')]"

definition checkDescriptionString :: "jsval \<Rightarrow> string \<Rightarrow> exn + unit" where
  "checkDescriptionString s fieldName =
     asserts
       [(typeof s = ''string'', fieldName @ '' must be a string.''),
        (\<not> startsWith (strOf s) '' '', fieldName @ '' must not start with leading space.''),
        (\<not> endsWith (strOf s) '' '', fieldName @ '' must not start with trailing space.''),
        (length (strOf s) > 0, fieldName @ '' is an empty string.''),
        (\<not> looseEqBoolStr (length (strOf s) > 4000)
             (fieldName @ '' must not have more than 255 characters.''),
         generatedMessage (length (strOf s) > 4000)
             (fieldName @ '' must not have more than 255 characters.''))]"

text \<open>
  \<^verbatim>\<open>checkCDATAString\<close>. The fourth statement compares \<^verbatim>\<open>s.slice(9, -3)\<close>, the text between
  the two markers, with the closing marker.
\<close>

definition checkCDATAString :: "jsval \<Rightarrow> string \<Rightarrow> exn + unit" where
  "checkCDATAString s fieldName =
     asserts
       [(typeof s = ''string'', fieldName @ '' must be a string.''),
        (length (strOf s) > 0, fieldName @ '' is an empty string.''),
        (slice (strOf s) 0 9 = ''<![CDATA['',
         fieldName @ '' must start with '<![CDATA[' if it's CDATA.''),
        (slice (strOf s) 9 (- 3) = '']]>'',
         fieldName @ '' must end with ']]>' if it's CDATA.''),
        (indexOfStr (slice (strOf s) 9 (- 3)) '']]>'' = - 1,
         fieldName @ '' must not include ']]>' in it's content.'')]"

section \<open>The surroundings of a run\<close>

text \<open>
  What \<^verbatim>\<open>rq.head(s)\<close> gives: a response with its status and its \<^verbatim>\<open>accept-ranges\<close> and
  \<^verbatim>\<open>content-type\<close> headers, or a thrown error with its \<^verbatim>\<open>status\<close> (absent when the request
  never got an answer).
\<close>

datatype http = Response jsnum "string option" "string option" | Failed "jsnum option"

text \<open>
  The command line, the process environment and the libraries the checkers call:
  \<^verbatim>\<open>args['strict']\<close>; \<^verbatim>\<open>process.env.CI\<close>, \<^verbatim>\<open>NODE_ENV\<close> and \<^verbatim>\<open>PUBLIC_URL_BASE\<close>; the answer
  of \<^verbatim>\<open>superagent\<close> for a URL; \<^verbatim>\<open>moment(s, DATE_FORMATS, true).isValid()\<close>;
  \<^verbatim>\<open>EmailValidator.validate\<close>, which returns a boolean or throws; the \<^verbatim>\<open>iso6391\<close> column of
  \<^verbatim>\<open>iso-639-2\<close>; and the value \<^verbatim>\<open>_.get(ITUNES_CATEGORIES, cat)\<close> of the table
  \<^verbatim>\<open>itunes-categories.json\<close> (\<open>JUndefined\<close> where the path leads nowhere).
\<close>

record env =
  strict :: bool
  CI :: "string option"
  NODE_ENV :: "string option"
  PUBLIC_URL_BASE :: "string option"
  head :: "string \<Rightarrow> http"
  momentIsValid :: "string \<Rightarrow> bool"
  emailValidate :: "jsval \<Rightarrow> exn + bool"
  ISO_CODES :: "jsval list"
  ITUNES_CATEGORIES :: "string \<Rightarrow> jsval"

text \<open>
  The effects of a run: the variable \<^verbatim>\<open>exitCode\<close>, the lines written by \<^verbatim>\<open>console.warn\<close> and
  \<^verbatim>\<open>console.error\<close>, and the URLs requested.
\<close>

datatype out = ConsoleWarn string | ConsoleError string

record state =
  exitCode :: int
  console :: "out list"
  requests :: "string list"

definition initialState :: state where
  "initialState = \<lparr>exitCode = 0, console = [], requests = []\<rparr>"

definition handleError :: "env \<Rightarrow> exn \<Rightarrow> bool \<Rightarrow> state \<Rightarrow> state" where
  "handleError e err isStrict st =
     (if isStrict \<and> \<not> strict e
      then st\<lparr>console := console st @ [ConsoleWarn (message err)]\<rparr>
      else st\<lparr>console := console st @ [ConsoleError (message err)], exitCode := 1\<rparr>)"

text \<open>
  A checker as a validator calls it: it may write to the console and send a request, and
  it returns or throws. \<open>sync\<close> is a checker that does neither of the first two.
\<close>

type_synonym checker = "jsval \<Rightarrow> string \<Rightarrow> state \<Rightarrow> (exn + unit) \<times> state"

definition sync :: "(jsval \<Rightarrow> string \<Rightarrow> exn + unit) \<Rightarrow> checker" where
  "sync c = (\<lambda>v fieldName st. (c v fieldName, st))"

text \<open>\<^verbatim>\<open>try { await validate(...) } catch (err) { handleError(err) }\<close>\<close>

definition guarded :: "env \<Rightarrow> (state \<Rightarrow> (exn + unit) \<times> state) \<Rightarrow> state \<Rightarrow> state" where
  "guarded e c st =
     (case c st of
        (Inl err, st') \<Rightarrow> handleError e err False st'
      | (Inr u, st') \<Rightarrow> st')"

section \<open>Field checkers that use the surroundings\<close>

definition checkDate :: "env \<Rightarrow> jsval \<Rightarrow> string \<Rightarrow> exn + unit" where
  "checkDate e s fieldName =
     asserts
       [(typeof s = ''string'', fieldName @ '' must be a string.''),
        (length (strOf s) > 0, fieldName @ '' is an empty string.''),
        (momentIsValid e (strOf s), fieldName @ '' is not properly formatted date.'')]"

definition isLower :: "char \<Rightarrow> bool" where
  "isLower c = (97 \<le> (of_char c :: nat) \<and> (of_char c :: nat) \<le> 122)"

definition isUpper :: "char \<Rightarrow> bool" where
  "isUpper c = (65 \<le> (of_char c :: nat) \<and> (of_char c :: nat) \<le> 90)"

text \<open>The pattern \<^verbatim>\<open>/^[a-z]{2}(|-[a-zA-Z]{2})$/\<close>.\<close>

fun matchesLanguage :: "string \<Rightarrow> bool" where
  "matchesLanguage [a, b] = (isLower a \<and> isLower b)"
| "matchesLanguage [a, b, d, x, y] =
     (isLower a \<and> isLower b \<and> d = CHR ''-'' \<and> (isLower x \<or> isUpper x) \<and> (isLower y \<or> isUpper y))"
| "matchesLanguage s = False"

definition checkLanguage :: "env \<Rightarrow> jsval \<Rightarrow> string \<Rightarrow> exn + unit" where
  "checkLanguage e s fieldName =
     asserts
       [(typeof s = ''string'', fieldName @ '' must be a string.''),
        (length (strOf s) > 0, fieldName @ '' is an empty string.''),
        (matchesLanguage (strOf s),
         fieldName @ '' has not the proper format of a language code.''),
        (indexOf (ISO_CODES e) (JStr (slice (strOf s) 0 2)) \<noteq> - 1,
         fieldName @ '' does not start with a valid language code.'')]"

text \<open>
  \<^verbatim>\<open>checkUrlFormat\<close>. The extensions the program passes are plain words, so the pattern
  \<^verbatim>\<open>(ext1|ext2)$\<close> matches exactly the strings that end with one of them.
\<close>

definition checkUrlFormat :: "jsval \<Rightarrow> string \<Rightarrow> string list \<Rightarrow> exn + unit" where
  "checkUrlFormat s fieldName expectedExtensions =
     asserts
       ([(typeof s = ''string'', fieldName @ '' must be a string.''),
         (length (strOf s) > 0, fieldName @ '' is an empty string.''),
         (slice (strOf s) 0 8 = ''https://'', fieldName @ '' must start with 'https://'.'')]
        @ (if length expectedExtensions > 0
           then [(list_ex (endsWith (strOf s)) expectedExtensions,
                  fieldName @ '' must end with one of the extensions ''
                    @ join '','' expectedExtensions @ ''.'')]
           else []))"

text \<open>
  \<^verbatim>\<open>process.env.CI && (process.env.NODE_ENV === 'test' || s.startsWith(process.env.PUBLIC_URL_BASE))\<close>:
  a variable of the environment is a string or absent, and \<^verbatim>\<open>startsWith\<close> turns an absent
  argument into the text \<^verbatim>\<open>undefined\<close>.
\<close>

definition skipInCI :: "env \<Rightarrow> string \<Rightarrow> bool" where
  "skipInCI e s =
     ((case CI e of None \<Rightarrow> False | Some c \<Rightarrow> c \<noteq> [])
      \<and> (NODE_ENV e = Some ''test''
         \<or> startsWith s (case PUBLIC_URL_BASE e of None \<Rightarrow> ''undefined'' | Some b \<Rightarrow> b)))"

text \<open>
  The \<^verbatim>\<open>try\<close> block of \<^verbatim>\<open>checkUrlExists\<close> and its \<^verbatim>\<open>catch\<close>: an assertion that fails inside
  the \<^verbatim>\<open>try\<close> is caught by the same \<^verbatim>\<open>catch\<close> as a failed request, and has no \<^verbatim>\<open>status\<close>.
\<close>

definition checkResponse :: "http \<Rightarrow> string \<Rightarrow> string list \<Rightarrow> exn + unit" where
  "checkResponse res fieldName expectedContentTypes =
     (case res of
        Response status acceptRanges contentType \<Rightarrow>
          (case asserts
                  ([(status = ofNat 200,
                     fieldName @ '' responded with '' @ numToString status
                       @ '' when trying to connect.''),
                    (acceptRanges = Some ''bytes'',
                     fieldName @ '' has not field 'accept-ranges' in header set to 'bytes'.'')]
                   @ (if length expectedContentTypes > 0
                      then [((case contentType of None \<Rightarrow> False
                              | Some t \<Rightarrow> t \<in> set expectedContentTypes),
                             fieldName @ '' has an unexpected content type ''
                               @ (case contentType of None \<Rightarrow> ''undefined'' | Some t \<Rightarrow> t)
                               @ ''.'')]
                      else []))
           of Inl err \<Rightarrow>
                Inl (AssertionError
                       (fieldName @ '' responded with undefined when trying to connect.''))
            | Inr u \<Rightarrow> Inr ())
      | Failed status \<Rightarrow>
          asserts
            [(status = Some (ofNat 200),
              fieldName @ '' responded with ''
                @ (case status of None \<Rightarrow> ''undefined'' | Some n \<Rightarrow> numToString n)
                @ '' when trying to connect.'')])"

definition checkUrlExists :: "env \<Rightarrow> jsval \<Rightarrow> string \<Rightarrow> string list \<Rightarrow> string list
    \<Rightarrow> state \<Rightarrow> (exn + unit) \<times> state" where
  "checkUrlExists e s fieldName expectedExtension expectedContentTypes st =
     (case checkUrlFormat s fieldName expectedExtension of
        Inl err \<Rightarrow> (Inl err, st)
      | Inr u \<Rightarrow>
          if skipInCI e (strOf s)
          then (Inr (),
                st\<lparr>console := console st
                   @ [ConsoleWarn (''Skipping checking of URL '' @ strOf s @ '' in ci pipeline'')]\<rparr>)
          else (checkResponse (head e (strOf s)) fieldName expectedContentTypes,
                st\<lparr>requests := requests st @ [strOf s]\<rparr>))"

text \<open>
  \<^verbatim>\<open>checkItunesCategory\<close>. \<^verbatim>\<open>_.get(ITUNES_CATEGORIES, cat, []).indexOf(subcat)\<close> searches an
  array or a string; any other value of the table has no \<^verbatim>\<open>indexOf\<close>.
\<close>

definition checkItunesCategory :: "env \<Rightarrow> jsval \<Rightarrow> jsval \<Rightarrow> exn + unit" where
  "checkItunesCategory e cat subcat =
     (case asserts
             [(typeof cat = ''string'', ''Itunes category must be a string.''),
              (truthy (ITUNES_CATEGORIES e (strOf cat)),
               ''Itunes category is not a valid itunes category.'')]
      of Inl err \<Rightarrow> Inl err
       | Inr u \<Rightarrow>
           if truthy subcat
           then (if typeof subcat \<noteq> ''string''
                 then Inl (AssertionError ''Itunes subcategory must be a string.'')
                 else (case ITUNES_CATEGORIES e (strOf cat) of
                         JArr xs \<Rightarrow>
                           asserts [(indexOf xs subcat \<noteq> - 1, ''Itunes subcategory is not valid.'')]
                       | JStr t \<Rightarrow>
                           asserts [(indexOfStr t (strOf subcat) \<noteq> - 1,
                                     ''Itunes subcategory is not valid.'')]
                       | JUndefined \<Rightarrow>
                           asserts [(indexOf [] subcat \<noteq> - 1, ''Itunes subcategory is not valid.'')]
                       | other \<Rightarrow> Inl (TypeError ''_.get(...).indexOf is not a function'')))
           else Inr ())"

definition checkBool :: "jsval \<Rightarrow> string \<Rightarrow> exn + unit" where
  "checkBool s fieldName =
     asserts [(typeof s = ''boolean'', fieldName @ '' must be a boolean.'')]"

text \<open>
  \<^verbatim>\<open>checkEmail\<close> hands its value to the library without a test of its kind; what the
  library throws, the checker throws.
\<close>

definition checkEmail :: "env \<Rightarrow> jsval \<Rightarrow> string \<Rightarrow> exn + unit" where
  "checkEmail e s fieldName =
     (case emailValidate e s of
        Inl err \<Rightarrow> Inl err
      | Inr valid \<Rightarrow> asserts [(valid, fieldName @ '' is not a valid email address.'')])"

definition checkItunesType :: "jsval \<Rightarrow> string \<Rightarrow> exn + unit" where
  "checkItunesType s fieldName =
     asserts
       [(indexOf [JStr ''serial'', JStr ''episodic''] s \<noteq> - 1,
         fieldName @ '' must be 'serial' or 'episodic'' @ [CHR 0x27])]"

definition checkEpisodeType :: "jsval \<Rightarrow> string \<Rightarrow> exn + unit" where
  "checkEpisodeType s fieldName =
     asserts
       [(indexOf [JStr ''full'', JStr ''trailer'', JStr ''bonus''] s \<noteq> - 1,
         fieldName @ '' must be 'full', 'trailer' or 'bonus'.'')]"

definition checkAudioType :: "jsval \<Rightarrow> string \<Rightarrow> exn + unit" where
  "checkAudioType s fieldName =
     asserts
       [(indexOf [JStr ''audio/x-m4a'', JStr ''audio/mpeg''] s \<noteq> - 1,
         fieldName @ '' valid audio type'')]"

section \<open>Reading the tree\<close>

text \<open>
  A key that \<^verbatim>\<open>Object.keys\<close> lists first, in numeric order: the decimal form of an array
  index.
\<close>

definition indexValue :: "string \<Rightarrow> int" where
  "indexValue k = foldl (\<lambda>a c. 10 * a + (of_char c - 48)) 0 k"

definition isArrayIndex :: "string \<Rightarrow> bool" where
  "isArrayIndex k =
     (k \<noteq> [] \<and> list_all isDigit k \<and> (k = ''0'' \<or> take 1 k \<noteq> ''0'')
      \<and> indexValue k < 4294967295)"

text \<open>
  \<^verbatim>\<open>object[key]\<close> on a value that is neither \<^verbatim>\<open>null\<close> nor \<^verbatim>\<open>undefined\<close>: an own property of
  an object; the length and the elements of an array or a string; and what the value
  inherits. Of the keys the program reads, a prototype defines one: \<^verbatim>\<open>link\<close>, a method of
  every string.
\<close>

fun getProp :: "jsval \<Rightarrow> string \<Rightarrow> jsval" where
  "getProp (JObj kvs) k = (case map_of kvs k of None \<Rightarrow> JUndefined | Some v \<Rightarrow> v)"
| "getProp (JStr s) k =
     (if k = ''length'' then JNum (ofNat (length s))
      else if k = ''link'' then JFunction ''link''
      else if isArrayIndex k \<and> indexValue k < int (length s)
           then JStr [s ! nat (indexValue k)]
      else JUndefined)"
| "getProp (JArr xs) k =
     (if k = ''length'' then JNum (ofNat (length xs))
      else if isArrayIndex k \<and> indexValue k < int (length xs) then xs ! nat (indexValue k)
      else JUndefined)"
| "getProp (JFunction name) k = (if k = ''length'' then JNum (ofNat 1) else JUndefined)"
| "getProp v k = JUndefined"

fun splitAcc :: "string \<Rightarrow> string \<Rightarrow> string list" where
  "splitAcc acc [] = [acc]"
| "splitAcc acc (c # cs) = (if c = CHR ''.'' then acc # splitAcc [] cs else splitAcc (acc @ [c]) cs)"

fun hasKey :: "jsval \<Rightarrow> string \<Rightarrow> bool" where
  "hasKey (JObj kvs) k = (k \<in> set (map fst kvs))"
| "hasKey v k = False"

text \<open>
  \<^verbatim>\<open>castPath\<close> of lodash on a path without brackets, as all the paths of the program are:
  a path with no dot, or one that is itself a property of the object, is a single key;
  any other path is split at its dots.
\<close>

definition castPath :: "string \<Rightarrow> jsval \<Rightarrow> string list" where
  "castPath path object =
     (if CHR ''.'' \<in> set path \<and> \<not> hasKey object path then splitAcc [] path else [path])"

text \<open>
  \<^verbatim>\<open>baseGet\<close>: follow the keys while the value is neither \<^verbatim>\<open>null\<close> nor \<^verbatim>\<open>undefined\<close>; a walk
  that stops early gives \<^verbatim>\<open>undefined\<close>.
\<close>

fun baseGet :: "jsval \<Rightarrow> string list \<Rightarrow> jsval" where
  "baseGet object [] = object"
| "baseGet object (k # ks) =
     (if object = JNull \<or> object = JUndefined then JUndefined
      else baseGet (getProp object k) ks)"

text \<open>\<^verbatim>\<open>_.get(object, path, defaultValue)\<close>: the default replaces \<^verbatim>\<open>undefined\<close> only.\<close>

definition get :: "jsval \<Rightarrow> string \<Rightarrow> jsval \<Rightarrow> jsval" where
  "get object path defaultValue =
     (let result = baseGet object (castPath path object)
      in if result = JUndefined then defaultValue else result)"

text \<open>
  \<^verbatim>\<open>Object.keys\<close>: the array indices in numeric order, then the other keys in insertion
  order. It throws on \<^verbatim>\<open>null\<close> and \<^verbatim>\<open>undefined\<close>.
\<close>

fun keys :: "jsval \<Rightarrow> exn + string list" where
  "keys (JObj kvs) =
     Inr (sort_key indexValue (filter isArrayIndex (map fst kvs))
          @ filter (\<lambda>k. \<not> isArrayIndex k) (map fst kvs))"
| "keys (JStr s) = Inr (map showNat [0..<length s])"
| "keys (JArr xs) = Inr (map showNat [0..<length xs])"
| "keys (JNum n) = Inr []"
| "keys (JBool b) = Inr []"
| "keys (JFunction name) = Inr []"
| "keys v = Inl (TypeError ''Cannot convert undefined or null to object'')"

text \<open>\<^verbatim>\<open>_.without(array, ...values)\<close>\<close>

definition without :: "string list \<Rightarrow> string list \<Rightarrow> string list" where
  "without array vals = filter (\<lambda>k. k \<notin> set vals) array"

text \<open>\<^verbatim>\<open>item['title']\<close>: reading a property of \<^verbatim>\<open>null\<close> or \<^verbatim>\<open>undefined\<close> throws.\<close>

fun titleOf :: "jsval \<Rightarrow> exn + jsval" where
  "titleOf JNull = Inl (TypeError ''Cannot read property 'title' of null'')"
| "titleOf JUndefined = Inl (TypeError ''Cannot read property 'title' of undefined'')"
| "titleOf v = Inr (getProp v ''title'')"

text \<open>\<^verbatim>\<open>`${item['title']}`\<close>: the title is read, then converted.\<close>

definition titleText :: "jsval \<Rightarrow> exn + string" where
  "titleText item = (case titleOf item of Inl err \<Rightarrow> Inl err | Inr title \<Rightarrow> toStr title)"

section \<open>The channel\<close>

definition REQUIRED_CHANNEL_ATTRS :: "env \<Rightarrow> (string \<times> checker) list" where
  "REQUIRED_CHANNEL_ATTRS e =
     [(''title'', sync checkDefaultString),
      (''description'', sync checkDescriptionString),
      (''itunes:image.@_href'',
       (\<lambda>s f. checkUrlExists e s f [''jpg'', ''jpeg'', ''png'']
                 [''image/jpg'', ''image/jpeg'', ''image/png''])),
      (''language'', sync (checkLanguage e)),
      (''itunes:explicit'', sync checkBool),
      (''atom:link.@_href'', (\<lambda>s f. checkUrlExists e s f [] []))]"

definition OPTIONAL_CHANNEL_ATTRS :: "env \<Rightarrow> (string \<times> checker) list" where
  "OPTIONAL_CHANNEL_ATTRS e =
     [(''content:encoded'', sync checkCDATAString),
      (''itunes:summary'', sync checkDescriptionString),
      (''itunes:author'', sync checkDefaultString),
      (''link'', (\<lambda>s f. checkUrlExists e s f [] [])),
      (''itunes:owner.itunes:name'', sync checkDefaultString),
      (''itunes:owner.itunes:email'', sync (checkEmail e)),
      (''lastBuildDate'', sync (checkDate e)),
      (''itunes:title'', sync checkDefaultString),
      (''itunes:type'', sync checkItunesType),
      (''copyright'', sync checkDefaultString),
      (''itunes:new-feed-url'', (\<lambda>s f. checkUrlExists e s f [] [])),
      (''itunes:block'', sync checkDefaultString),
      (''itunes:complete'', sync checkDefaultString)]"

text \<open>The loop over the required table: every field is checked, an absent one as \<^verbatim>\<open>null\<close>.\<close>

fun requiredLoop :: "env \<Rightarrow> jsval \<Rightarrow> (string \<times> checker) list \<Rightarrow> state \<Rightarrow> state" where
  "requiredLoop e node [] st = st"
| "requiredLoop e node ((field, validate) # rest) st =
     requiredLoop e node rest (guarded e (validate (get node field JNull) field) st)"

text \<open>The loop over the optional table: a field that is \<^verbatim>\<open>undefined\<close> is skipped.\<close>

fun optionalLoop :: "env \<Rightarrow> jsval \<Rightarrow> (string \<times> checker) list \<Rightarrow> state \<Rightarrow> state" where
  "optionalLoop e node [] st = st"
| "optionalLoop e node ((field, validate) # rest) st =
     (if get node field JUndefined = JUndefined then optionalLoop e node rest st
      else optionalLoop e node rest (guarded e (validate (get node field JNull) field) st))"

definition channelStructuralTags :: "string list" where
  "channelStructuralTags =
     [''itunes:image'', ''image'', ''itunes:category'', ''itunes:owner'', ''atom:link'', ''item'']"

definition checkChannel :: "env \<Rightarrow> jsval \<Rightarrow> state \<Rightarrow> (exn + unit) \<times> state" where
  "checkChannel e channel st =
     (let st1 = requiredLoop e channel (REQUIRED_CHANNEL_ATTRS e) st;
          st2 = guarded e
                  (\<lambda>s. (checkItunesCategory e
                           (get channel ''itunes:category.@_text'' (JStr []))
                           (get channel ''itunes:category.itunes:category.@_text'' JNull), s))
                  st1;
          st3 = optionalLoop e channel (OPTIONAL_CHANNEL_ATTRS e) st2
      in case keys channel of
           Inl err \<Rightarrow> (Inl err, st3)
         | Inr ks \<Rightarrow>
             (let additionalChannelTags =
                    without ks
                      (channelStructuralTags
                       @ map fst (REQUIRED_CHANNEL_ATTRS e)
                       @ map fst (OPTIONAL_CHANNEL_ATTRS e))
              in (Inr (),
                  if length additionalChannelTags > 0
                  then handleError e
                         (Error (''Channel has additional tags: ''
                                   @ join '','' additionalChannelTags))
                         True st3
                  else st3)))"

section \<open>The items\<close>

definition REQUIRED_EPISODE_ATTRS :: "jsval \<Rightarrow> (string \<times> checker) list" where
  "REQUIRED_EPISODE_ATTRS itunesType =
     [(''title'', sync checkDefaultString),
      (''enclosure.@_url'', sync (\<lambda>s f. checkUrlFormat s f [''mp3'', ''m4a''])),
      (''enclosure.@_length'', sync checkNumberString),
      (''enclosure.@_type'', sync checkAudioType)]
     @ (if itunesType = JStr ''serial'' then [(''itunes:episode'', sync checkNatural)] else [])"

definition OPTIONAL_EPISODE_ATTRS :: "env \<Rightarrow> jsval \<Rightarrow> (string \<times> checker) list" where
  "OPTIONAL_EPISODE_ATTRS e itunesType =
     [(''itunes:title'', sync checkDefaultString),
      (''itunes:author'', sync checkDefaultString),
      (''itunes:summary'', sync checkDefaultString),
      (''itunes:subtitle'', sync checkDefaultString),
      (''itunes:episodeType'', sync checkEpisodeType),
      (''content:encoded'', sync checkCDATAString),
      (''category'', sync checkDefaultString),
      (''guid.#text'', sync checkDefaultString),
      (''guid.@_isPermaLink'', sync checkBool),
      (''pubDate'', sync (checkDate e)),
      (''description'', sync checkDescriptionString),
      (''itunes:duration'', sync checkNatural),
      (''link'', sync (\<lambda>s f. checkUrlFormat s f [])),
      (''itunes:image.@_href'',
       (\<lambda>s f. checkUrlExists e s f [''jpg'', ''jpeg'', ''png'']
                 [''image/jpg'', ''image/jpeg'', ''image/png''])),
      (''itunes:explicit'', sync checkBool)]
     @ (if itunesType \<noteq> JStr ''serial'' then [(''itunes:episode'', sync checkNatural)] else [])
     @ [(''itunes:order'', sync checkNatural),
        (''itunes:season'', sync checkNatural)]"

text \<open>
  The sets \<^verbatim>\<open>guids\<close> and \<^verbatim>\<open>episodes\<close>, in insertion order. \<^verbatim>\<open>Set.has\<close> compares primitives by
  value, \<^verbatim>\<open>NaN\<close> being equal to itself and a built-in function to itself, and arrays and
  objects by reference: no two of those in the tree are the same.
\<close>

fun byValue :: "jsval \<Rightarrow> bool" where
  "byValue (JArr xs) = False"
| "byValue (JObj kvs) = False"
| "byValue v = True"

definition has :: "jsval list \<Rightarrow> jsval \<Rightarrow> bool" where
  "has seen v = (byValue v \<and> v \<in> set seen)"

definition add :: "jsval list \<Rightarrow> jsval \<Rightarrow> jsval list" where
  "add seen v = (if has seen v then seen else seen @ [v])"

text \<open>
  The duplicate test of the item loop, once for \<^verbatim>\<open>guid\<close> (\<open>what = ''guid''\<close>, the value read
  at \<^verbatim>\<open>guid.#text\<close>) and once for \<^verbatim>\<open>episode\<close> (the value read at \<^verbatim>\<open>itunes:episode\<close>):
  \<^verbatim>\<open>if (v) { if (seen.has(v)) { handleError(new Error(...)) } seen.add(v) }\<close>. The message
  is built outside any \<^verbatim>\<open>try\<close>: a title that does not convert to a string ends the run.
\<close>

definition duplicateCheck :: "env \<Rightarrow> string \<Rightarrow> jsval \<Rightarrow> jsval \<Rightarrow> jsval list \<Rightarrow> state
    \<Rightarrow> (exn + jsval list) \<times> state" where
  "duplicateCheck e what item v seen st =
     (if truthy v
      then (if has seen v
            then (case titleText item of
                    Inl err \<Rightarrow> (Inl err, st)
                  | Inr title \<Rightarrow>
                      (case toStr v of
                         Inl err \<Rightarrow> (Inl err, st)
                       | Inr text \<Rightarrow>
                           (Inr (add seen v),
                            handleError e
                              (Error (title @ '': Duplicate '' @ what @ '' '' @ text))
                              False st)))
            else (Inr (add seen v), st))
      else (Inr seen, st))"

text \<open>
  The loop over the required table of an item. The field name handed to the checker is
  built inside the \<^verbatim>\<open>try\<close>, so a failure to read or convert the title is caught like a
  checker's.
\<close>

fun requiredEpisodeLoop :: "env \<Rightarrow> jsval \<Rightarrow> (string \<times> checker) list \<Rightarrow> state \<Rightarrow> state" where
  "requiredEpisodeLoop e item [] st = st"
| "requiredEpisodeLoop e item ((field, validate) # rest) st =
     requiredEpisodeLoop e item rest
       (guarded e
          (\<lambda>s. case titleText item of
                 Inl err \<Rightarrow> (Inl err, s)
               | Inr title \<Rightarrow> validate (get item field JNull) (title @ '': '' @ field) s)
          st)"

definition itemStructuralTags :: "string list" where
  "itemStructuralTags = [''enclosure'', ''guid'']"

text \<open>
  \<^verbatim>\<open>_.without(Object.keys(item), 'enclosure', 'guid', ...Object.keys(REQUIRED_EPISODE_ATTRS),
  ...Object.keys(OPTIONAL_EPISODE_ATTRS))\<close>
\<close>

definition additionalTags :: "string list \<Rightarrow> (string \<times> checker) list \<Rightarrow> (string \<times> checker) list
    \<Rightarrow> string list" where
  "additionalTags itemKeys required optional =
     without itemKeys (itemStructuralTags @ map fst required @ map fst optional)"

text \<open>
  \<^verbatim>\<open>const guid = _.get(item, 'guid.#text', '')\<close> and
  \<^verbatim>\<open>const episode = _.get(item, 'itunes:episode', '')\<close>
\<close>

definition guidOf :: "jsval \<Rightarrow> jsval" where
  "guidOf item = get item ''guid.#text'' (JStr [])"

definition episodeOf :: "jsval \<Rightarrow> jsval" where
  "episodeOf item = get item ''itunes:episode'' (JStr [])"

text \<open>
  The second half of a turn of the item loop: the required checks and the test for
  additional tags, whose message is built outside any \<^verbatim>\<open>try\<close>. The optional table is used
  for its keys only.
\<close>

definition itemChecks :: "env \<Rightarrow> (string \<times> checker) list \<Rightarrow> (string \<times> checker) list
    \<Rightarrow> jsval \<Rightarrow> state \<Rightarrow> (exn + unit) \<times> state" where
  "itemChecks e required optional item st =
     (let st3 = requiredEpisodeLoop e item required st
      in case keys item of
           Inl err \<Rightarrow> (Inl err, st3)
         | Inr ks \<Rightarrow>
             if length (additionalTags ks required optional) > 0
             then (case titleText item of
                     Inl err \<Rightarrow> (Inl err, st3)
                   | Inr title \<Rightarrow>
                       (Inr (),
                        handleError e
                          (Error (title @ '': Has additional tags: ''
                                    @ join '','' (additionalTags ks required optional)))
                          True st3))
             else (Inr (), st3))"

text \<open>
  One turn of \<^verbatim>\<open>for (let item of items)\<close>: the duplicate test for the guid, the one for
  the episode index, then the checks of the item.
\<close>

definition episodeBody :: "env \<Rightarrow> (string \<times> checker) list \<Rightarrow> (string \<times> checker) list
    \<Rightarrow> jsval \<Rightarrow> jsval list \<times> jsval list \<Rightarrow> state
    \<Rightarrow> (exn + jsval list \<times> jsval list) \<times> state" where
  "episodeBody e required optional item seen st =
     (let guid = guidOf item;
          episode = episodeOf item
      in case duplicateCheck e ''guid'' item guid (fst seen) st of
           (Inl err, st1) \<Rightarrow> (Inl err, st1)
         | (Inr guids, st1) \<Rightarrow>
             (case duplicateCheck e ''episode'' item episode (snd seen) st1 of
                (Inl err, st2) \<Rightarrow> (Inl err, st2)
              | (Inr episodes, st2) \<Rightarrow>
                  (case itemChecks e required optional item st2 of
                     (Inl err, st3) \<Rightarrow> (Inl err, st3)
                   | (Inr u, st3) \<Rightarrow> (Inr (guids, episodes), st3))))"

fun forItems :: "env \<Rightarrow> (string \<times> checker) list \<Rightarrow> (string \<times> checker) list
    \<Rightarrow> jsval list \<Rightarrow> jsval list \<times> jsval list \<Rightarrow> state
    \<Rightarrow> (exn + jsval list \<times> jsval list) \<times> state" where
  "forItems e required optional [] seen st = (Inr seen, st)"
| "forItems e required optional (item # rest) seen st =
     (case episodeBody e required optional item seen st of
        (Inl err, st') \<Rightarrow> (Inl err, st')
      | (Inr seen', st') \<Rightarrow> forItems e required optional rest seen' st')"

text \<open>
  \<^verbatim>\<open>let items = _.get(channel, 'item', []); if (items && !(items instanceof Array)) items = [items]\<close>
\<close>

definition itemsOf :: "jsval \<Rightarrow> jsval" where
  "itemsOf channel =
     (let items = get channel ''item'' (JArr [])
      in if truthy items \<and> (case items of JArr xs \<Rightarrow> False | other \<Rightarrow> True)
         then JArr [items] else items)"

text \<open>\<^verbatim>\<open>items.length\<close>, and the values \<^verbatim>\<open>for (let item of items)\<close> runs over.\<close>

fun lengthOf :: "jsval \<Rightarrow> exn + jsval" where
  "lengthOf JNull = Inl (TypeError ''Cannot read property 'length' of null'')"
| "lengthOf JUndefined = Inl (TypeError ''Cannot read property 'length' of undefined'')"
| "lengthOf v = Inr (getProp v ''length'')"

fun iterate :: "jsval \<Rightarrow> exn + jsval list" where
  "iterate (JArr xs) = Inr xs"
| "iterate (JStr s) = Inr (map (\<lambda>c. JStr [c]) s)"
| "iterate v = Inl (TypeError ''items is not iterable'')"

definition checkEpisodes :: "env \<Rightarrow> jsval \<Rightarrow> state \<Rightarrow> (exn + unit) \<times> state" where
  "checkEpisodes e channel st =
     (let items = itemsOf channel;
          st1 = guarded e
                  (\<lambda>s. (case lengthOf items of
                          Inl err \<Rightarrow> Inl err
                        | Inr n \<Rightarrow> checkNatural n ''Episode count'', s))
                  st;
          itunesType = get channel ''itunes:type'' (JStr [])
      in case iterate items of
           Inl err \<Rightarrow> (Inl err, st1)
         | Inr xs \<Rightarrow>
             (case forItems e (REQUIRED_EPISODE_ATTRS itunesType)
                     (OPTIONAL_EPISODE_ATTRS e itunesType) xs ([], []) st1 of
                (Inl err, st2) \<Rightarrow> (Inl err, st2)
              | (Inr seen, st2) \<Rightarrow> (Inr (), st2)))"

section \<open>Example feeds and surroundings\<close>

text \<open>
  A run outside continuous integration, without \<^verbatim>\<open>--strict\<close>, in which no request is
  answered; the same run with \<^verbatim>\<open>--strict\<close>; and two runs in continuous integration with a
  public base URL, the second with \<^verbatim>\<open>NODE_ENV=test\<close>. The email library of these runs is
  a stand-in for \<^verbatim>\<open>email-validator\<close>: like it, it rejects a falsy value at once and
  converts any other value to a string to match it. The table of categories has one entry.
\<close>

definition exampleCategories :: jsval where
  "exampleCategories = JObj [(''Arts'', JArr [JStr ''Books'', JStr ''Design''])]"

definition exampleEmailValidate :: "jsval \<Rightarrow> exn + bool" where
  "exampleEmailValidate v =
     (if \<not> truthy v then Inr False
      else case toStr v of
             Inl err \<Rightarrow> Inl err
           | Inr s \<Rightarrow> Inr (s = ''owner@example.com''))"

definition exampleEnv :: env where
  "exampleEnv =
     \<lparr>strict = False, CI = None, NODE_ENV = None, PUBLIC_URL_BASE = None,
      head = (\<lambda>url. Failed None),
      momentIsValid = (\<lambda>s. False),
      emailValidate = exampleEmailValidate,
      ISO_CODES = [JStr ''en'', JStr ''de''],
      ITUNES_CATEGORIES = (\<lambda>cat. get exampleCategories cat JUndefined)\<rparr>"

definition strictEnv :: env where
  "strictEnv = exampleEnv\<lparr>strict := True\<rparr>"

definition ciEnv :: env where
  "ciEnv = exampleEnv\<lparr>CI := Some ''true'', PUBLIC_URL_BASE := Some ''https://podcast.example.com''\<rparr>"

definition ciTestEnv :: env where
  "ciTestEnv = ciEnv\<lparr>NODE_ENV := Some ''test''\<rparr>"

definition exampleEnclosure :: jsval where
  "exampleEnclosure =
     JObj [(''@_url'', JStr ''https://example.com/ep1.mp3''),
           (''@_length'', JStr ''1024''),
           (''@_type'', JStr ''audio/mpeg'')]"

text \<open>An item with its required fields and an episode type outside the three allowed.\<close>

definition itemWithEpisodeType :: jsval where
  "itemWithEpisodeType =
     JObj [(''title'', JStr ''Episode 1''),
           (''enclosure'', exampleEnclosure),
           (''itunes:episodeType'', JStr ''preview'')]"

text \<open>An item with its required fields and an image.\<close>

definition itemWithImage :: jsval where
  "itemWithImage =
     JObj [(''title'', JStr ''Episode 1''),
           (''enclosure'', exampleEnclosure),
           (''itunes:image'', JObj [(''@_href'', JStr ''https://example.com/cover.jpg'')])]"

text \<open>An item with its required fields and a tag no table names.\<close>

definition itemWithExtraTag :: jsval where
  "itemWithExtraTag =
     JObj [(''title'', JStr ''Episode 1''),
           (''enclosure'', exampleEnclosure),
           (''comments'', JStr ''none'')]"

text \<open>
  Items as parsed from \<^verbatim>\<open><guid isPermaLink="false">...</guid>\<close> and
  \<^verbatim>\<open><itunes:episode>...</itunes:episode>\<close>.
\<close>

definition itemNumbered :: "string \<Rightarrow> jsval \<Rightarrow> jsval \<Rightarrow> jsval" where
  "itemNumbered title guid episode =
     JObj [(''title'', JStr title),
           (''enclosure'', exampleEnclosure),
           (''guid'', JObj [(''#text'', guid), (''@_isPermaLink'', JStr ''false'')]),
           (''itunes:episode'', episode)]"

text \<open>An item with neither a guid nor an episode index.\<close>

definition itemPlain :: "string \<Rightarrow> jsval" where
  "itemPlain title = JObj [(''title'', JStr title), (''enclosure'', exampleEnclosure)]"


text \<open>
  A channel as parsed from
  \<^verbatim>\<open><itunes:owner><itunes:email><toString>x</toString></itunes:email></itunes:owner>\<close>.
\<close>

definition channelWithEmailObject :: jsval where
  "channelWithEmailObject =
     JObj [(''itunes:owner'',
            JObj [(''itunes:email'', JObj [(''toString'', JStr ''x'')])])]"

section \<open>Properties of the string checkers\<close>

lemma indexOfStr_closing_marker: "indexOfStr '']]>'' '']]>'' = 0"
  by (simp add: indexOfStr_def startsWith_def)

text \<open>
  C2. The CDATA checker is claimed to accept exactly the strings that start with
  \<^verbatim>\<open><![CDATA[\<close>, end with \<^verbatim>\<open>]]>\<close> and have no \<^verbatim>\<open>]]>\<close> in between. The code requires
  the text between the markers to be equal to \<^verbatim>\<open>]]>\<close> and then to contain no \<^verbatim>\<open>]]>\<close>, so it
  rejects every value: \<^verbatim>\<open><![CDATA[hello]]>\<close> is rejected with the message about the
  ending, like the two strings the claim wants rejected.
\<close>

theorem checkCDATAString_rejects:
  "checkCDATAString v f \<noteq> Inr ()
   \<and> checkCDATAString (JStr ''<![CDATA[hello]]>'') f
       = Inl (AssertionError (f @ '' must end with ']]>' if it's CDATA.''))
   \<and> checkCDATAString (JStr ''<![CDATA[a]]>b]]>'') f
       = Inl (AssertionError (f @ '' must end with ']]>' if it's CDATA.''))
   \<and> checkCDATAString (JStr ''hello'') f
       = Inl (AssertionError (f @ '' must start with '<![CDATA[' if it's CDATA.''))"
proof -
  have "checkCDATAString v f \<noteq> Inr ()"
    by (auto simp: checkCDATAString_def indexOfStr_closing_marker)
  moreover have "checkCDATAString (JStr ''<![CDATA[hello]]>'') f
       = Inl (AssertionError (f @ '' must end with ']]>' if it's CDATA.''))"
    by (simp add: checkCDATAString_def slice_def)
  moreover have "checkCDATAString (JStr ''<![CDATA[a]]>b]]>'') f
       = Inl (AssertionError (f @ '' must end with ']]>' if it's CDATA.''))"
    by (simp add: checkCDATAString_def slice_def)
  moreover have "checkCDATAString (JStr ''hello'') f
       = Inl (AssertionError (f @ '' must start with '<![CDATA[' if it's CDATA.''))"
    by (simp add: checkCDATAString_def slice_def)
  ultimately show ?thesis by blast
qed

subsection \<open>The length bound\<close>

lemma in_dropWhile: "x \<in> set xs \<Longrightarrow> \<not> P x \<Longrightarrow> x \<in> set (dropWhile P xs)"
  by (induction xs) auto

lemma in_trim: "x \<in> set s \<Longrightarrow> \<not> isWhiteSpace x \<Longrightarrow> x \<in> set (trim s)"
  by (simp add: trim_def in_dropWhile)

lemma StringToNumber_NaN:
  assumes "x \<in> set s" "\<not> isWhiteSpace x" "\<not> isDigit x"
  shows "StringToNumber s = None"
proof -
  have x: "x \<in> set (trim s)"
    using assms by (simp add: in_trim)
  then have "trim s \<noteq> []"
    by auto
  moreover have "\<not> list_all isDigit (trim s)"
    using x assms(3) by (auto simp: list_all_iff)
  ultimately show ?thesis
    by (simp add: StringToNumber_def)
qed

lemma full_stop: "\<not> isWhiteSpace CHR ''.''" "\<not> isDigit CHR ''.''"
  by (simp_all add: isWhiteSpace_def isDigit_def)

text \<open>The text passed as \<open>expected\<close> is not a number, so no boolean is \<^verbatim>\<open>==\<close> to it.\<close>

lemma length_message_never_equal:
  "\<not> looseEqBoolStr b (f @ '' must not have more than 255 characters.'')"
  using StringToNumber_NaN [of "CHR ''.''" "f @ '' must not have more than 255 characters.''"]
  by (simp add: looseEqBoolStr_def full_stop)

lemma checkDefaultString_accepts:
  "checkDefaultString (JStr s) f = Inr ()
     \<longleftrightarrow> s \<noteq> [] \<and> \<not> startsWith s '' '' \<and> \<not> endsWith s '' ''"
  by (auto simp: checkDefaultString_def length_message_never_equal)

lemma checkDescriptionString_accepts:
  "checkDescriptionString (JStr s) f = Inr ()
     \<longleftrightarrow> s \<noteq> [] \<and> \<not> startsWith s '' '' \<and> \<not> endsWith s '' ''"
  by (auto simp: checkDescriptionString_def length_message_never_equal)

text \<open>
  C3. The default-string checker is claimed to raise a violation for every string longer
  than 255 characters, the description-string checker for every string longer than 4000,
  when the other shape rules hold. In the code the bound never raises: a string of 256
  letters passes the first checker and a string of 4001 letters passes the second.
\<close>

theorem long_strings_pass:
  "checkDefaultString (JStr (replicate 256 CHR ''a'')) f = Inr ()
   \<and> checkDescriptionString (JStr (replicate 4001 CHR ''a'')) f = Inr ()"
  by (simp add: checkDefaultString_accepts checkDescriptionString_accepts
      startsWith_def endsWith_def)

subsection \<open>Number strings\<close>

lemma checkNumberString_iff:
  "checkNumberString (JStr s) f = Inr () \<longleftrightarrow> (\<exists>n. parseInt s = Some n \<and> 0 \<le> n)"
  by (auto simp: checkNumberString_def)

lemma isDigit_facts: "isDigit c \<Longrightarrow> \<not> isWhiteSpace c \<and> c \<noteq> CHR ''-'' \<and> c \<noteq> CHR ''+''"
  by (auto simp: isDigit_def isWhiteSpace_def)

lemma parseInt_digits:
  assumes "ds \<noteq> []" "list_all isDigit ds"
  shows "\<exists>n. parseInt (ds @ rest) = Some n \<and> 0 \<le> n"
proof -
  obtain d dt where ds: "ds = d # dt"
    using assms(1) by (cases ds) auto
  have d: "isDigit d"
    using assms(2) ds by simp
  show ?thesis
    using d isDigit_facts [OF d] by (simp add: parseInt_def ds Let_def)
qed

lemma parseInt_12abc: "parseInt ''12abc'' = Some 12"
  by (simp add: parseInt_def isWhiteSpace_def isDigit_def decimal_def Let_def)

lemma parseInt_3_9: "parseInt ''3.9'' = Some 3"
  by (simp add: parseInt_def isWhiteSpace_def isDigit_def decimal_def Let_def)

lemma parseInt_minus_1: "parseInt ''-1'' = Some (- 1)"
  by (simp add: parseInt_def isWhiteSpace_def isDigit_def decimal_def Let_def)

lemma parseInt_abc: "parseInt ''abc'' = None"
  by (simp add: parseInt_def isWhiteSpace_def isDigit_def decimal_def Let_def)

text \<open>
  C9. The number-string checker accepts a string exactly when \<^verbatim>\<open>parseInt(s, 10)\<close> is a number
  and is not negative. So it accepts every string that begins with a decimal digit,
  whatever follows the digits: \<^verbatim>\<open>12abc\<close> and \<^verbatim>\<open>3.9\<close> pass, while \<^verbatim>\<open>-1\<close> and \<^verbatim>\<open>abc\<close> each
  raise a violation.
\<close>

theorem checkNumberString_leading_digits:
  "(checkNumberString (JStr s) f = Inr () \<longleftrightarrow> (\<exists>n. parseInt s = Some n \<and> 0 \<le> n))
   \<and> (ds \<noteq> [] \<and> list_all isDigit ds \<longrightarrow> checkNumberString (JStr (ds @ rest)) f = Inr ())
   \<and> checkNumberString (JStr ''12abc'') f = Inr ()
   \<and> checkNumberString (JStr ''3.9'') f = Inr ()
   \<and> checkNumberString (JStr ''-1'') f
       = Inl (AssertionError (f @ '' must be a positive number or zero.''))
   \<and> checkNumberString (JStr ''abc'') f
       = Inl (AssertionError (f @ '' is not a valid number string.''))"
proof -
  have a: "checkNumberString (JStr s) f = Inr () \<longleftrightarrow> (\<exists>n. parseInt s = Some n \<and> 0 \<le> n)"
    by (rule checkNumberString_iff)
  have b: "ds \<noteq> [] \<and> list_all isDigit ds \<longrightarrow> checkNumberString (JStr (ds @ rest)) f = Inr ()"
    using parseInt_digits [of ds rest] by (simp add: checkNumberString_iff)
  have c: "checkNumberString (JStr ''12abc'') f = Inr ()"
    by (simp add: checkNumberString_def parseInt_12abc)
  have d: "checkNumberString (JStr ''3.9'') f = Inr ()"
    by (simp add: checkNumberString_def parseInt_3_9)
  have e: "checkNumberString (JStr ''-1'') f
       = Inl (AssertionError (f @ '' must be a positive number or zero.''))"
    by (simp add: checkNumberString_def parseInt_minus_1)
  have g: "checkNumberString (JStr ''abc'') f
       = Inl (AssertionError (f @ '' is not a valid number string.''))"
    by (simp add: checkNumberString_def parseInt_abc)
  from a b c d e g show ?thesis
    by blast
qed

theorem checkNumberString_leading_digits_witness:
  "''12'' \<noteq> [] \<and> list_all isDigit ''12''
   \<and> checkNumberString (JStr (''12'' @ ''abc'')) ''enclosure.@_length'' = Inr ()
   \<and> parseInt ''12abc'' = Some 12"
  using checkNumberString_leading_digits
          [of "''12abc''" "''enclosure.@_length''" "''12''" "''abc''"]
  by (simp add: isDigit_def parseInt_12abc)

section \<open>The exit code\<close>

lemma exitCode_handleError:
  "exitCode (handleError e err isStrict st) = (if isStrict \<and> \<not> strict e then exitCode st else 1)"
  by (simp add: handleError_def)

lemma exitCode_foldl_handleError:
  "exitCode (foldl (\<lambda>s (err, isStrict). handleError e err isStrict s) st vs)
     = (if list_ex (\<lambda>(err, isStrict). strict e \<or> \<not> isStrict) vs then 1 else exitCode st)"
  by (induction vs arbitrary: st) (auto simp: exitCode_handleError)

text \<open>
  C4. A strict-only violation sets the exit code to 1 exactly when strict mode is on; an
  always-fatal violation sets it to 1 whatever the flag. For a run that starts with exit
  code 0 and records the violations \<open>vs\<close> in order, the final exit code is 1 exactly when
  strict mode is on and \<open>vs\<close> is not empty, or some violation of \<open>vs\<close> is always-fatal: a
  run without \<^verbatim>\<open>--strict\<close> whose violations are all strict-only ends with 0.
\<close>

theorem strict_only_exit_code:
  "exitCode (handleError e err True st) = (if strict e then 1 else exitCode st)
   \<and> exitCode (handleError e err False st) = 1
   \<and> exitCode (foldl (\<lambda>s (err, isStrict). handleError e err isStrict s) initialState vs)
       = (if list_ex (\<lambda>(err, isStrict). strict e \<or> \<not> isStrict) vs then 1 else 0)"
  by (simp add: exitCode_handleError exitCode_foldl_handleError initialState_def)

theorem strict_only_exit_code_witness:
  "exitCode (foldl (\<lambda>s (err, isStrict). handleError exampleEnv err isStrict s) initialState
       [(Error ''Channel has additional tags: weird'', True),
        (Error ''Episode 1: Has additional tags: comments'', True)]) = 0
   \<and> exitCode (foldl (\<lambda>s (err, isStrict). handleError strictEnv err isStrict s) initialState
       [(Error ''Channel has additional tags: weird'', True)]) = 1
   \<and> exitCode (foldl (\<lambda>s (err, isStrict). handleError exampleEnv err isStrict s) initialState
       [(Error ''Channel has additional tags: weird'', True),
        (AssertionError ''title must be a string.'', False)]) = 1
   \<and> exitCode (snd (checkEpisodes exampleEnv (JObj [(''item'', itemWithExtraTag)]) initialState)) = 0
   \<and> exitCode (snd (checkEpisodes strictEnv (JObj [(''item'', itemWithExtraTag)]) initialState)) = 1"
proof -
  have s: "\<not> strict exampleEnv" "strict strictEnv"
    by (simp_all add: exampleEnv_def strictEnv_def)
  note run = conjunct2 [OF conjunct2 [OF strict_only_exit_code]]
  have a: "exitCode (foldl (\<lambda>s (err, isStrict). handleError exampleEnv err isStrict s) initialState
       [(Error ''Channel has additional tags: weird'', True),
        (Error ''Episode 1: Has additional tags: comments'', True)]) = 0"
    by (subst run) (simp add: s)
  have b: "exitCode (foldl (\<lambda>s (err, isStrict). handleError strictEnv err isStrict s) initialState
       [(Error ''Channel has additional tags: weird'', True)]) = 1"
    by (subst run) (simp add: s)
  have c: "exitCode (foldl (\<lambda>s (err, isStrict). handleError exampleEnv err isStrict s) initialState
       [(Error ''Channel has additional tags: weird'', True),
        (AssertionError ''title must be a string.'', False)]) = 1"
    by (subst run) (simp add: s)
  have d: "exitCode (snd (checkEpisodes exampleEnv (JObj [(''item'', itemWithExtraTag)]) initialState)) = 0"
    by code_simp
  have e: "exitCode (snd (checkEpisodes strictEnv (JObj [(''item'', itemWithExtraTag)]) initialState)) = 1"
    by code_simp
  from a b c d e show ?thesis by blast
qed

section \<open>Reachability in continuous integration\<close>

text \<open>
  C7, as the code has it. In continuous integration (\<^verbatim>\<open>CI\<close> set and not empty), for a URL
  that passes the shape check, the reachability check is skipped, with a note on the
  console and no request, exactly when \<^verbatim>\<open>NODE_ENV\<close> is \<^verbatim>\<open>test\<close> or the URL starts with
  the public base URL; otherwise the request is sent and its answer checked. So the list
  of requests stays as it was exactly under that condition.
\<close>

theorem checkUrlExists_bypass:
  assumes "checkUrlFormat s f exts = Inr ()"
    and "CI e = Some c" and "c \<noteq> []"
  shows "checkUrlExists e s f exts cts st =
     (if NODE_ENV e = Some ''test''
         \<or> startsWith (strOf s) (case PUBLIC_URL_BASE e of None \<Rightarrow> ''undefined'' | Some b \<Rightarrow> b)
      then (Inr (), st\<lparr>console := console st
              @ [ConsoleWarn (''Skipping checking of URL '' @ strOf s @ '' in ci pipeline'')]\<rparr>)
      else (checkResponse (head e (strOf s)) f cts, st\<lparr>requests := requests st @ [strOf s]\<rparr>))
   \<and> (requests (snd (checkUrlExists e s f exts cts st)) = requests st
        \<longleftrightarrow> NODE_ENV e = Some ''test''
            \<or> startsWith (strOf s)
                 (case PUBLIC_URL_BASE e of None \<Rightarrow> ''undefined'' | Some b \<Rightarrow> b))"
  using assms by (simp add: checkUrlExists_def skipInCI_def)

theorem checkUrlExists_bypass_witness:
  "checkUrlFormat (JStr ''https://podcast.example.com/feed.xml'') ''atom:link.@_href'' [] = Inr ()
   \<and> checkUrlFormat (JStr ''https://other.example.com/feed.xml'') ''atom:link.@_href'' [] = Inr ()
   \<and> CI ciEnv = Some ''true''
   \<and> checkUrlExists ciEnv (JStr ''https://podcast.example.com/feed.xml'') ''atom:link.@_href''
        [] [] initialState
       = (Inr (),
          \<lparr>exitCode = 0,
            console = [ConsoleWarn
              ''Skipping checking of URL https://podcast.example.com/feed.xml in ci pipeline''],
            requests = []\<rparr>)
   \<and> checkUrlExists ciEnv (JStr ''https://other.example.com/feed.xml'') ''atom:link.@_href''
        [] [] initialState
       = (Inl (AssertionError
                 ''atom:link.@_href responded with undefined when trying to connect.''),
          \<lparr>exitCode = 0, console = [],
            requests = [''https://other.example.com/feed.xml'']\<rparr>)"
proof -
  have f1: "checkUrlFormat (JStr ''https://podcast.example.com/feed.xml'') ''atom:link.@_href'' []
              = Inr ()"
    by code_simp
  have f2: "checkUrlFormat (JStr ''https://other.example.com/feed.xml'') ''atom:link.@_href'' []
              = Inr ()"
    by code_simp
  have ci: "CI ciEnv = Some ''true''" and ne: "''true'' \<noteq> []"
    by (simp_all add: ciEnv_def)
  have env: "NODE_ENV ciEnv = None" "PUBLIC_URL_BASE ciEnv = Some ''https://podcast.example.com''"
    "head ciEnv ''https://other.example.com/feed.xml'' = Failed None"
    by (simp_all add: ciEnv_def exampleEnv_def)
  have p1: "startsWith ''https://podcast.example.com/feed.xml'' ''https://podcast.example.com''"
    by code_simp
  have p2: "\<not> startsWith ''https://other.example.com/feed.xml'' ''https://podcast.example.com''"
    by code_simp
  have r: "checkResponse (Failed None) ''atom:link.@_href'' []
      = Inl (AssertionError ''atom:link.@_href responded with undefined when trying to connect.'')"
    by code_simp
  have a: "checkUrlExists ciEnv (JStr ''https://podcast.example.com/feed.xml'') ''atom:link.@_href''
        [] [] initialState
       = (Inr (),
          \<lparr>exitCode = 0,
            console = [ConsoleWarn
              ''Skipping checking of URL https://podcast.example.com/feed.xml in ci pipeline''],
            requests = []\<rparr>)"
    using conjunct1 [OF checkUrlExists_bypass [OF f1 ci ne, of "[]" initialState]] p1
    by (simp add: env initialState_def)
  have b: "checkUrlExists ciEnv (JStr ''https://other.example.com/feed.xml'') ''atom:link.@_href''
        [] [] initialState
       = (Inl (AssertionError
                 ''atom:link.@_href responded with undefined when trying to connect.''),
          \<lparr>exitCode = 0, console = [],
            requests = [''https://other.example.com/feed.xml'']\<rparr>)"
    using conjunct1 [OF checkUrlExists_bypass [OF f2 ci ne, of "[]" initialState]] p2
    by (simp add: env r initialState_def)
  from f1 f2 ci a b show ?thesis
    by blast
qed

text \<open>
  The claim as written names the public base URL only. With \<^verbatim>\<open>NODE_ENV=test\<close> the check
  of a URL that does not start with the base is skipped as well.
\<close>

theorem test_mode_bypass_counterexample:
  "CI ciTestEnv = Some ''true''
   \<and> PUBLIC_URL_BASE ciTestEnv = Some ''https://podcast.example.com''
   \<and> \<not> startsWith ''https://other.example.com/feed.xml'' ''https://podcast.example.com''
   \<and> checkUrlExists ciTestEnv (JStr ''https://other.example.com/feed.xml'') ''link'' [] []
        initialState
       = (Inr (),
          \<lparr>exitCode = 0,
            console = [ConsoleWarn
              ''Skipping checking of URL https://other.example.com/feed.xml in ci pipeline''],
            requests = []\<rparr>)"
  by code_simp

section \<open>Duplicate guids and episode indices\<close>

lemma baseGet_JUndefined: "baseGet JUndefined ks = JUndefined"
  by (cases ks) auto


lemma duplicateCheck_falsy:
  "\<not> truthy v \<Longrightarrow> duplicateCheck e what item v seen st = (Inr seen, st)"
  by (simp add: duplicateCheck_def)


lemma duplicateCheck_seen:
  assumes "duplicateCheck e what item v seen st = (Inr seen', st')"
  shows "seen' = (if truthy v then add seen v else seen)"
  using assms by (auto simp: duplicateCheck_def split: if_splits sum.splits)

lemma episodeBody_seen:
  assumes "episodeBody e req opt item (G, E) st = (Inr (G', E'), st')"
  shows "G' = (if truthy (guidOf item) then add G (guidOf item) else G)
       \<and> E' = (if truthy (episodeOf item) then add E (episodeOf item) else E)"
  using assms
  by (auto simp: episodeBody_def Let_def split: prod.splits sum.splits dest!: duplicateCheck_seen)







lemma guidOf_absent:
  assumes "getProp item ''guid.#text'' = JUndefined"
    and "getProp (getProp item ''guid'') ''#text'' = JUndefined"
  shows "guidOf item = JStr []"
  using assms by (simp add: guidOf_def get_def castPath_def baseGet_JUndefined)

lemma episodeOf_absent:
  assumes "getProp item ''itunes:episode'' = JUndefined"
  shows "episodeOf item = JStr []"
  using assms by (simp add: episodeOf_def get_def castPath_def)

lemma forItems_falsy_guids:
  assumes "list_all (\<lambda>it. \<not> truthy (guidOf it)) items"
    and "forItems e req opt items (G, E) st = (Inr (G', E'), st')"
  shows "G' = G"
  using assms
proof (induction items arbitrary: G E st)
  case Nil
  then show ?case by simp
next
  case (Cons item rest)
  from Cons.prems(2) obtain G1 E1 st1
    where body: "episodeBody e req opt item (G, E) st = (Inr (G1, E1), st1)"
      and rest: "forItems e req opt rest (G1, E1) st1 = (Inr (G', E'), st')"
    by (auto split: prod.splits sum.splits)
  have "G1 = G"
    using episodeBody_seen [OF body] Cons.prems(1) by simp
  moreover have "G' = G1"
    using Cons.IH [OF _ rest] Cons.prems(1) by simp
  ultimately show ?case by simp
qed

lemma forItems_falsy_episodes:
  assumes "list_all (\<lambda>it. \<not> truthy (episodeOf it)) items"
    and "forItems e req opt items (G, E) st = (Inr (G', E'), st')"
  shows "E' = E"
  using assms
proof (induction items arbitrary: G E st)
  case Nil
  then show ?case by simp
next
  case (Cons item rest)
  from Cons.prems(2) obtain G1 E1 st1
    where body: "episodeBody e req opt item (G, E) st = (Inr (G1, E1), st1)"
      and rest: "forItems e req opt rest (G1, E1) st1 = (Inr (G', E'), st')"
    by (auto split: prod.splits sum.splits)
  have "E1 = E"
    using episodeBody_seen [OF body] Cons.prems(1) by simp
  moreover have "E' = E1"
    using Cons.IH [OF _ rest] Cons.prems(1) by simp
  ultimately show ?case by simp
qed

text \<open>With a falsy guid the turn of the loop does not read the set of guids.\<close>

lemma episodeBody_falsy_guid:
  assumes "\<not> truthy (guidOf item)"
  shows "episodeBody e req opt item (G, E) st =
           (case episodeBody e req opt item ([], E) st of
              (Inl err, s) \<Rightarrow> (Inl err, s)
            | (Inr (G0, E'), s) \<Rightarrow> (Inr (G, E'), s))"
  using assms
  by (simp add: episodeBody_def Let_def duplicateCheck_falsy split: prod.splits sum.splits)

lemma forItems_falsy_guids_any:
  assumes "list_all (\<lambda>it. \<not> truthy (guidOf it)) items"
  shows "forItems e req opt items (G, E) st =
           (case forItems e req opt items ([], E) st of
              (Inl err, s) \<Rightarrow> (Inl err, s)
            | (Inr (G0, E'), s) \<Rightarrow> (Inr (G, E'), s))"
  using assms
proof (induction items arbitrary: E st)
  case Nil
  then show ?case by simp
next
  case (Cons item rest)
  have f: "\<not> truthy (guidOf item)" and r: "list_all (\<lambda>it. \<not> truthy (guidOf it)) rest"
    using Cons.prems by simp_all
  show ?case
  proof (cases "episodeBody e req opt item ([], E) st")
    case (Pair res s)
    show ?thesis
    proof (cases res)
      case (Inl err)
      then show ?thesis
        using Pair episodeBody_falsy_guid [OF f, of e req opt G E st] by simp
    next
      case (Inr seen)
      obtain G0 E1 where seen: "seen = (G0, E1)" by (cases seen)
      have G0: "G0 = []"
        using episodeBody_seen [of e req opt item "[]" E st G0 E1 s] Pair Inr seen f by simp
      have "episodeBody e req opt item (G, E) st = (Inr (G, E1), s)"
        using Pair Inr seen episodeBody_falsy_guid [OF f, of e req opt G E st] by simp
      then show ?thesis
        using Pair Inr seen G0 Cons.IH [OF r, of E1 s] by simp
    qed
  qed
qed

text \<open>
  C10. An item whose guid is absent, empty or otherwise falsy takes no part in the
  duplicate test for guids: the test records nothing and leaves the set of guids as it
  is, and an absent guid reads as the empty string. The same holds for a falsy or absent
  episode index. A collection in which every item has a falsy guid runs as it would with
  an empty set of guids, whatever the set holds, and hands the set back unchanged.
\<close>

theorem falsy_values_excluded:
  "(\<not> truthy (guidOf item) \<longrightarrow>
      duplicateCheck e ''guid'' item (guidOf item) G st = (Inr G, st))
   \<and> (\<not> truthy (episodeOf item) \<longrightarrow>
      duplicateCheck e ''episode'' item (episodeOf item) E st = (Inr E, st))
   \<and> (getProp item ''guid.#text'' = JUndefined
        \<and> getProp (getProp item ''guid'') ''#text'' = JUndefined \<longrightarrow> guidOf item = JStr [])
   \<and> (getProp item ''itunes:episode'' = JUndefined \<longrightarrow> episodeOf item = JStr [])
   \<and> (list_all (\<lambda>it. \<not> truthy (guidOf it)) items \<longrightarrow>
        forItems e req opt items (G, E) st =
          (case forItems e req opt items ([], E) st of
             (Inl err, s) \<Rightarrow> (Inl err, s)
           | (Inr (G0, E'), s) \<Rightarrow> (Inr (G, E'), s)))
   \<and> (list_all (\<lambda>it. \<not> truthy (guidOf it)) items
        \<and> forItems e req opt items (G, E) st = (Inr (G', E'), st') \<longrightarrow> G' = G)"
proof (intro conjI impI)
  show "duplicateCheck e ''guid'' item (guidOf item) G st = (Inr G, st)"
    if "\<not> truthy (guidOf item)"
    using that by (rule duplicateCheck_falsy)
  show "duplicateCheck e ''episode'' item (episodeOf item) E st = (Inr E, st)"
    if "\<not> truthy (episodeOf item)"
    using that by (rule duplicateCheck_falsy)
  show "guidOf item = JStr []"
    if "getProp item ''guid.#text'' = JUndefined
        \<and> getProp (getProp item ''guid'') ''#text'' = JUndefined"
    using that guidOf_absent by blast
  show "episodeOf item = JStr []"
    if "getProp item ''itunes:episode'' = JUndefined"
    using that by (rule episodeOf_absent)
  show "forItems e req opt items (G, E) st =
          (case forItems e req opt items ([], E) st of
             (Inl err, s) \<Rightarrow> (Inl err, s)
           | (Inr (G0, E'), s) \<Rightarrow> (Inr (G, E'), s))"
    if "list_all (\<lambda>it. \<not> truthy (guidOf it)) items"
    using that by (rule forItems_falsy_guids_any)
  show "G' = G"
    if "list_all (\<lambda>it. \<not> truthy (guidOf it)) items
        \<and> forItems e req opt items (G, E) st = (Inr (G', E'), st')"
    using that forItems_falsy_guids by blast
qed

theorem falsy_values_excluded_witness:
  "\<not> truthy (guidOf (itemPlain ''A''))
   \<and> guidOf (itemNumbered ''B'' (JStr []) (JNum Zero)) = JStr []
   \<and> episodeOf (itemNumbered ''B'' (JStr []) (JNum Zero)) = JNum Zero
   \<and> duplicateCheck exampleEnv ''guid'' (itemNumbered ''B'' (JStr []) (JNum Zero))
        (guidOf (itemNumbered ''B'' (JStr []) (JNum Zero))) [JStr []] initialState
       = (Inr [JStr []], initialState)
   \<and> duplicateCheck exampleEnv ''episode'' (itemNumbered ''B'' (JStr []) (JNum Zero))
        (episodeOf (itemNumbered ''B'' (JStr []) (JNum Zero))) [JNum Zero] initialState
       = (Inr [JNum Zero], initialState)
   \<and> guidOf (itemPlain ''A'') = JStr []
   \<and> episodeOf (itemPlain ''A'') = JStr []
   \<and> list_all (\<lambda>it. \<not> truthy (guidOf it))
        [itemPlain ''A'', itemNumbered ''B'' (JStr []) (JNum Zero), itemPlain ''C'']
   \<and> forItems exampleEnv (REQUIRED_EPISODE_ATTRS (JStr []))
        (OPTIONAL_EPISODE_ATTRS exampleEnv (JStr []))
        [itemPlain ''A'', itemNumbered ''B'' (JStr []) (JNum Zero), itemPlain ''C'']
        ([JStr []], []) initialState
       = (Inr ([JStr []], []), initialState)"
proof -
  let ?B = "itemNumbered ''B'' (JStr []) (JNum Zero)"
  let ?items = "[itemPlain ''A'', ?B, itemPlain ''C'']"
  have gB: "guidOf ?B = JStr []"
    by code_simp
  have eB: "episodeOf ?B = JNum Zero"
    by code_simp
  have pA: "getProp (itemPlain ''A'') ''guid.#text'' = JUndefined
        \<and> getProp (getProp (itemPlain ''A'') ''guid'') ''#text'' = JUndefined"
    by code_simp
  have qA: "getProp (itemPlain ''A'') ''itunes:episode'' = JUndefined"
    by code_simp
  have gC: "guidOf (itemPlain ''C'') = JStr []"
    by code_simp
  have run: "forItems exampleEnv (REQUIRED_EPISODE_ATTRS (JStr []))
        (OPTIONAL_EPISODE_ATTRS exampleEnv (JStr [])) ?items ([], []) initialState
       = (Inr ([], []), initialState)"
    by code_simp
  note instB = falsy_values_excluded
    [where item = "?B" and e = exampleEnv and G = "[JStr []]" and E = "[JNum Zero]"
       and st = initialState]
  note thmA = falsy_values_excluded [where item = "itemPlain ''A''"]
  note thmR = falsy_values_excluded
    [where items = "?items" and e = exampleEnv and G = "[JStr []]" and E = "[]"
       and st = initialState and req = "REQUIRED_EPISODE_ATTRS (JStr [])"
       and opt = "OPTIONAL_EPISODE_ATTRS exampleEnv (JStr [])"]
  have gA: "guidOf (itemPlain ''A'') = JStr []"
    using thmA pA by blast
  have eA: "episodeOf (itemPlain ''A'') = JStr []"
    using thmA qA by blast
  have all: "list_all (\<lambda>it. \<not> truthy (guidOf it)) ?items"
    by (simp add: gA gB gC)
  have d1: "duplicateCheck exampleEnv ''guid'' ?B (guidOf ?B) [JStr []] initialState
       = (Inr [JStr []], initialState)"
    using instB gB by simp
  have d2: "duplicateCheck exampleEnv ''episode'' ?B (episodeOf ?B) [JNum Zero] initialState
       = (Inr [JNum Zero], initialState)"
    using instB eB by simp
  have r: "forItems exampleEnv (REQUIRED_EPISODE_ATTRS (JStr []))
        (OPTIONAL_EPISODE_ATTRS exampleEnv (JStr [])) ?items ([JStr []], []) initialState
       = (Inr ([JStr []], []), initialState)"
    using thmR all run by simp
  show ?thesis
    using gA eA gB eB d1 d2 all r by simp
qed

section \<open>Optional item fields and unexpected tags\<close>

text \<open>The loop over the items reads the optional table for its keys, never its checkers.\<close>

lemma optional_checkers_unused:
  assumes "map fst opt = map fst opt'"
  shows "episodeBody e req opt item seen st = episodeBody e req opt' item seen st"
proof -
  have tags: "additionalTags ks req opt = additionalTags ks req opt'" for ks
    using assms by (simp add: additionalTags_def)
  have checks: "itemChecks e req opt item s = itemChecks e req opt' item s" for s
    unfolding itemChecks_def tags by (rule refl)
  show ?thesis
    unfolding episodeBody_def checks by (rule refl)
qed

text \<open>
  C1. An optional field that is present and invalid is claimed to produce exactly one
  always-fatal violation, for the optional fields of every item too. The item loop
  never runs the optional checkers: an item whose episode type is \<^verbatim>\<open>preview\<close>, which the
  episode-type checker rejects, passes with no violation and exit code 0.
\<close>

theorem optional_item_field_unchecked:
  "get itemWithEpisodeType ''itunes:episodeType'' JUndefined = JStr ''preview''
   \<and> checkEpisodeType (JStr ''preview'') ''Episode 1: itunes:episodeType''
       = Inl (AssertionError
                ''Episode 1: itunes:episodeType must be 'full', 'trailer' or 'bonus'.'')
   \<and> checkEpisodes exampleEnv (JObj [(''item'', itemWithEpisodeType)]) initialState
       = (Inr (), initialState)"
  by code_simp

text \<open>
  C6. An item whose children are the required tags and \<^verbatim>\<open>itunes:image\<close> is claimed to
  yield no extra-tag violation. The item loop removes the keys of the tables as they
  are written, \<^verbatim>\<open>itunes:image.@_href\<close> among them, and the structural tags \<^verbatim>\<open>enclosure\<close>
  and \<^verbatim>\<open>guid\<close>; \<^verbatim>\<open>itunes:image\<close> stays and is reported, as a warning without
  \<^verbatim>\<open>--strict\<close> and as an error with exit code 1 with it. The channel lists
  \<^verbatim>\<open>itunes:image\<close> among its structural tags and reports nothing.
\<close>

theorem item_image_reported:
  "''itunes:image.@_href'' \<in> set (map fst (OPTIONAL_EPISODE_ATTRS exampleEnv (JStr [])))
   \<and> keys itemWithImage = Inr [''title'', ''enclosure'', ''itunes:image'']
   \<and> additionalTags [''title'', ''enclosure'', ''itunes:image'']
        (REQUIRED_EPISODE_ATTRS (JStr [])) (OPTIONAL_EPISODE_ATTRS exampleEnv (JStr []))
       = [''itunes:image'']
   \<and> checkEpisodes exampleEnv (JObj [(''item'', itemWithImage)]) initialState
       = (Inr (),
          \<lparr>exitCode = 0,
            console = [ConsoleWarn ''Episode 1: Has additional tags: itunes:image''],
            requests = []\<rparr>)
   \<and> checkEpisodes strictEnv (JObj [(''item'', itemWithImage)]) initialState
       = (Inr (),
          \<lparr>exitCode = 1,
            console = [ConsoleError ''Episode 1: Has additional tags: itunes:image''],
            requests = []\<rparr>)
   \<and> without [''title'', ''itunes:image'']
        (channelStructuralTags @ map fst (REQUIRED_CHANNEL_ATTRS exampleEnv)
           @ map fst (OPTIONAL_CHANNEL_ATTRS exampleEnv))
       = []"
  by code_simp

section \<open>Checkers on absent values and values of the wrong kind\<close>

text \<open>
  The checkers that test the kind of their value, or search a fixed list for it, raise
  their own violation on a value of another kind and on the empty string.
\<close>

lemma string_checkers_wrong_kind:
  assumes "typeof v \<noteq> ''string''"
  shows "checkDefaultString v f = Inl (AssertionError (f @ '' must be a string.''))"
    and "checkNumberString v f = Inl (AssertionError (f @ '' must be a string.''))"
    and "checkDescriptionString v f = Inl (AssertionError (f @ '' must be a string.''))"
    and "checkCDATAString v f = Inl (AssertionError (f @ '' must be a string.''))"
    and "checkDate e v f = Inl (AssertionError (f @ '' must be a string.''))"
    and "checkLanguage e v f = Inl (AssertionError (f @ '' must be a string.''))"
    and "checkUrlFormat v f exts = Inl (AssertionError (f @ '' must be a string.''))"
    and "checkUrlExists e v f exts cts st = (Inl (AssertionError (f @ '' must be a string.'')), st)"
    and "checkItunesCategory e v subcat = Inl (AssertionError ''Itunes category must be a string.'')"
  using assms
  by (simp_all add: checkDefaultString_def checkNumberString_def checkDescriptionString_def
      checkCDATAString_def checkDate_def checkLanguage_def checkUrlFormat_def checkUrlExists_def
      checkItunesCategory_def)

lemma parseInt_empty: "parseInt [] = None"
  by (simp add: parseInt_def)

lemma string_checkers_empty:
  shows "checkDefaultString (JStr []) f = Inl (AssertionError (f @ '' is an empty string.''))"
    and "checkNumberString (JStr []) f = Inl (AssertionError (f @ '' is not a valid number string.''))"
    and "checkDescriptionString (JStr []) f = Inl (AssertionError (f @ '' is an empty string.''))"
    and "checkCDATAString (JStr []) f = Inl (AssertionError (f @ '' is an empty string.''))"
    and "checkDate e (JStr []) f = Inl (AssertionError (f @ '' is an empty string.''))"
    and "checkLanguage e (JStr []) f = Inl (AssertionError (f @ '' is an empty string.''))"
    and "checkUrlFormat (JStr []) f exts = Inl (AssertionError (f @ '' is an empty string.''))"
    and "checkUrlExists e (JStr []) f exts cts st = (Inl (AssertionError (f @ '' is an empty string.'')), st)"
  by (simp_all add: checkDefaultString_def checkNumberString_def checkDescriptionString_def
      checkCDATAString_def checkDate_def checkLanguage_def checkUrlFormat_def checkUrlExists_def
      startsWith_def endsWith_def parseInt_empty)

lemma enum_checkers_absent:
  assumes "typeof v \<noteq> ''string'' \<or> v = JStr []"
  shows "checkItunesType v f
           = Inl (AssertionError (f @ '' must be 'serial' or 'episodic'' @ [CHR 0x27]))"
    and "checkEpisodeType v f
           = Inl (AssertionError (f @ '' must be 'full', 'trailer' or 'bonus'.''))"
    and "checkAudioType v f = Inl (AssertionError (f @ '' valid audio type''))"
  using assms
  by (auto simp: checkItunesType_def checkEpisodeType_def checkAudioType_def indexOf_def)

lemma other_checkers_wrong_kind:
  shows "typeof v \<noteq> ''number'' \<Longrightarrow> checkNatural v f = Inl (AssertionError (f @ '' must be a number.''))"
    and "typeof v \<noteq> ''boolean'' \<Longrightarrow> checkBool v f = Inl (AssertionError (f @ '' must be a boolean.''))"
    and "\<not> truthy (ITUNES_CATEGORIES e []) \<Longrightarrow> checkItunesCategory e (JStr []) subcat
           = Inl (AssertionError ''Itunes category is not a valid itunes category.'')"
    and "typeof cat = ''string'' \<Longrightarrow> truthy (ITUNES_CATEGORIES e (strOf cat)) \<Longrightarrow> truthy subcat
           \<Longrightarrow> typeof subcat \<noteq> ''string''
           \<Longrightarrow> checkItunesCategory e cat subcat = Inl (AssertionError ''Itunes subcategory must be a string.'')"
  by (simp_all add: checkNatural_def checkBool_def checkItunesCategory_def)

text \<open>
  The email checker does what the library does: it throws what the library throws, and
  raises its own violation where the library answers no.
\<close>

lemma checkEmail_unguarded:
  "checkEmail e v f =
     (case emailValidate e v of
        Inl err \<Rightarrow> Inl err
      | Inr valid \<Rightarrow>
          if valid then Inr ()
          else Inl (AssertionError (f @ '' is not a valid email address.'')))"
  by (simp add: checkEmail_def split: sum.splits)

text \<open>
  Whatever a checker throws, the \<^verbatim>\<open>try\<close> around its call records it: the loops over the
  tables always return a state. What ends a validator early is thrown outside the
  checkers: the channel validator returns for every channel that is not \<^verbatim>\<open>null\<close>, and the
  item validator returns for every list of items whose titles convert to strings.
\<close>

lemma keys_returns: "v \<noteq> JNull \<Longrightarrow> v \<noteq> JUndefined \<Longrightarrow> \<exists>ks. keys v = Inr ks"
  by (cases v) auto

lemma checkChannel_returns:
  assumes "channel \<noteq> JNull" and "channel \<noteq> JUndefined"
  shows "fst (checkChannel e channel st) = Inr ()"
  using keys_returns [OF assms] by (auto simp: checkChannel_def Let_def)

lemma toStr_byValue: "byValue v \<Longrightarrow> \<exists>s. toStr v = Inr s"
  by (cases v) auto

lemma titleText_present:
  assumes "titleText item = Inr title"
  shows "item \<noteq> JNull \<and> item \<noteq> JUndefined"
  using assms by (cases item) (auto simp: titleText_def)

lemma duplicateCheck_returns:
  assumes "titleText item = Inr title"
  shows "\<exists>seen' st'. duplicateCheck e what item v seen st = (Inr seen', st')"
proof (cases "truthy v \<and> has seen v")
  case True
  then obtain s where "toStr v = Inr s"
    using toStr_byValue [of v] by (auto simp: has_def)
  then show ?thesis
    using True assms by (simp add: duplicateCheck_def)
next
  case False
  then show ?thesis
    by (auto simp: duplicateCheck_def)
qed

lemma itemChecks_returns:
  assumes "titleText item = Inr title"
  shows "\<exists>st'. itemChecks e req opt item st = (Inr (), st')"
proof -
  obtain ks where "keys item = Inr ks"
    using keys_returns titleText_present [OF assms] by blast
  then show ?thesis
    using assms by (simp add: itemChecks_def Let_def)
qed

lemma episodeBody_returns:
  assumes "titleText item = Inr title"
  shows "\<exists>seen' st'. episodeBody e req opt item seen st = (Inr seen', st')"
proof -
  obtain G1 st1 where d1: "duplicateCheck e ''guid'' item (guidOf item) (fst seen) st = (Inr G1, st1)"
    using duplicateCheck_returns [OF assms] by blast
  obtain E1 st2 where d2: "duplicateCheck e ''episode'' item (episodeOf item) (snd seen) st1 = (Inr E1, st2)"
    using duplicateCheck_returns [OF assms] by blast
  obtain st3 where c: "itemChecks e req opt item st2 = (Inr (), st3)"
    using itemChecks_returns [OF assms] by blast
  show ?thesis
    by (simp add: episodeBody_def Let_def d1 d2 c)
qed

lemma forItems_returns:
  assumes "list_all (\<lambda>item. \<exists>title. titleText item = Inr title) items"
  shows "\<exists>seen' st'. forItems e req opt items seen st = (Inr seen', st')"
  using assms
proof (induction items arbitrary: seen st)
  case Nil
  then show ?case by simp
next
  case (Cons item rest)
  obtain title where "titleText item = Inr title"
    using Cons.prems by auto
  then obtain seen1 st1 where b: "episodeBody e req opt item seen st = (Inr seen1, st1)"
    using episodeBody_returns by blast
  show ?case
    using Cons.IH [of seen1 st1] Cons.prems b by simp
qed

lemma checkEpisodes_returns:
  assumes "itemsOf channel = JArr xs"
    and "list_all (\<lambda>item. \<exists>title. titleText item = Inr title) xs"
  shows "fst (checkEpisodes e channel st) = Inr ()"
proof -
  let ?t = "get channel ''itunes:type'' (JStr [])"
  let ?st1 = "guarded e (\<lambda>s. (checkNatural (JNum (ofNat (length xs))) ''Episode count'', s)) st"
  obtain seen' st' where
    "forItems e (REQUIRED_EPISODE_ATTRS ?t) (OPTIONAL_EPISODE_ATTRS e ?t) xs ([], []) ?st1
       = (Inr seen', st')"
    using forItems_returns [OF assms(2)] by blast
  then show ?thesis
    by (simp add: checkEpisodes_def Let_def assms(1))
qed

text \<open>
  C8. Every checker is claimed to raise its own violation, and no unrelated error, on
  whatever value it is given. The checkers above do. The email checker has no test of
  the kind of its value: an email element with a child \<^verbatim>\<open>toString\<close> is an object
  that does not convert to a string, the library throws a \<^verbatim>\<open>TypeError\<close> on it, and the
  message the channel validator records for the field is the library's, where the
  default-string checker on the same value raises its own.
\<close>

theorem email_checker_throws_library_error:
  "get channelWithEmailObject ''itunes:owner.itunes:email'' JNull = JObj [(''toString'', JStr ''x'')]
   \<and> checkEmail exampleEnv (JObj [(''toString'', JStr ''x'')]) ''itunes:owner.itunes:email''
       = Inl (TypeError ''Cannot convert object to primitive value'')
   \<and> optionalLoop exampleEnv channelWithEmailObject (OPTIONAL_CHANNEL_ATTRS exampleEnv)
        initialState
       = \<lparr>exitCode = 1,
          console = [ConsoleError ''Cannot convert object to primitive value''],
          requests = []\<rparr>
   \<and> checkDefaultString (JObj [(''toString'', JStr ''x'')]) ''itunes:owner.itunes:name''
       = Inl (AssertionError ''itunes:owner.itunes:name must be a string.'')"
  by code_simp

end
